theory Spec2Isabelle
  imports Main
begin

section \<open>Values of the embedding\<close>

text \<open>
  The file under verification is \<^verbatim>\<open>torch_xla/experimental/xla_sharded_tensor.py\<close>:
  the dataclass \<^verbatim>\<open>XLAShard\<close>, the context manager \<^verbatim>\<open>no_dispatch\<close> and the
  tensor subclass \<^verbatim>\<open>XLAShardedTensor\<close> with its constructor function \<^verbatim>\<open>new\<close>, its
  property \<^verbatim>\<open>size\<close> and its handler \<^verbatim>\<open>__torch__dispatch__\<close>.

  Exceptions are values: every function that can raise returns \<open>py_error + 'a\<close>,
  \<open>Inl\<close> being the exception. \<open>RuntimeError\<close> stands for whatever an operation of
  the tensor engine raises; its text tells two such errors apart.
\<close>

datatype py_error = AttributeError | TypeError | RuntimeError string

datatype scalar_type = Float32 | Float64 | Int32 | Int64

datatype tensor_layout = Strided | SparseCoo

text \<open>
  A plain \<^verbatim>\<open>torch.Tensor\<close>, as far as this file reads it: the identity of the Python
  object (\<open>tid\<close>) and the metadata that \<^verbatim>\<open>new\<close> passes on. The file never writes to
  a tensor, so a tensor is a value that carries its identity.
\<close>

record tensor =
  tid :: nat
  sizes :: "nat list"
  strides :: "nat list"
  storage_offset :: nat
  dtype :: scalar_type
  layout :: tensor_layout
  device :: string
  requires_grad :: bool

text \<open>
  An instance of \<^verbatim>\<open>XLAShardedTensor\<close>. \<open>base\<close> is the tensor object itself (the
  metadata given to \<^verbatim>\<open>_make_wrapper_subclass\<close>). \<open>global_tensor\<close> is the slot of
  \<^verbatim>\<open>__slots__\<close>: \<open>None\<close> is the slot never assigned, and reading it then raises
  \<^verbatim>\<open>AttributeError\<close>. \<open>mesh_shape\<close> and \<open>partition_spec\<close> are annotated on the
  class without a value, so they exist on an instance only once assigned: \<open>None\<close> is
  the attribute missing. \<open>local_shards\<close> has the class-level default \<^verbatim>\<open>None\<close>:
  here \<open>None\<close> is Python's \<^verbatim>\<open>None\<close>, and \<open>Some ws\<close> a list of references into the
  store of shards.
\<close>

record XLAShardedTensor =
  base :: tensor
  global_tensor :: "tensor option"
  local_shards :: "nat list option"
  mesh_shape :: "int list option"
  partition_spec :: "int option list option"

text \<open>
  The operand and result trees. Tuples, lists and dicts are the containers that
  \<^verbatim>\<open>tree_map\<close> descends into; everything else is a leaf. \<open>PSize\<close> is a
  \<^verbatim>\<open>torch.Size\<close>.
\<close>

datatype pyval =
    PNone
  | PBool bool
  | PInt int
  | PStr string
  | PSize "nat list"
  | PTensor tensor
  | PHandle XLAShardedTensor
  | PTuple "pyval list"
  | PList "pyval list"
  | PDict "(string \<times> pyval) list"

text \<open>The dataclass \<^verbatim>\<open>XLAShard\<close>: two fields, \<^verbatim>\<open>data\<close> and \<^verbatim>\<open>rank\<close>.\<close>

record XLAShard =
  data :: tensor
  rank :: int

text \<open>
  The state the file's functions run in: the next unused object identity, the
  number of live \<^verbatim>\<open>_DisableTorchDispatch\<close> guard objects (interception is suspended
  while there is one), the store of \<^verbatim>\<open>XLAShard\<close> objects (a dataclass that is not
  frozen, so its instances are mutable objects: a shard is referred to by its index
  in the store), and \<open>entries\<close>, the engine's count of how many times it has entered
  the interception handler.
\<close>

record world =
  next_id :: nat
  live_guards :: nat
  shards :: "XLAShard list"
  entries :: nat

section \<open>XLAShard\<close>

text \<open>
  The \<^verbatim>\<open>__init__\<close> that \<^verbatim>\<open>@dataclass\<close> generates: a new object with the two
  fields as given. It is the only function of the file that writes a field of a shard.
\<close>

definition XLAShard_init :: "tensor \<Rightarrow> int \<Rightarrow> world \<Rightarrow> nat \<times> world" where
  "XLAShard_init d r s =
     (length (shards s), s\<lparr>shards := shards s @ [\<lparr>data = d, rank = r\<rparr>]\<rparr>)"

section \<open>Construction: XLAShardedTensor.new\<close>

text \<open>
  A class, as far as the engine looks at it: its name and the names that it binds or
  inherits from a class other than \<^verbatim>\<open>torch.Tensor\<close>. \<^verbatim>\<open>new\<close> is a static
  method that takes the class of the instance as its first argument \<^verbatim>\<open>cls\<close>:
  \<^verbatim>\<open>XLAShardedTensor\<close> itself, or a subclass of it.
\<close>

record py_class =
  class_name :: string
  class_attrs :: "string list"

text \<open>
  The class of the file. Its body binds \<^verbatim>\<open>local_shards\<close>, \<^verbatim>\<open>__slots__\<close> (hence
  the slot \<^verbatim>\<open>global_tensor\<close>), \<^verbatim>\<open>new\<close>, \<^verbatim>\<open>size\<close>, \<^verbatim>\<open>__repr__\<close> and, on line
  92, \<^verbatim>\<open>__torch__dispatch__\<close>; \<^verbatim>\<open>mesh_shape\<close> and \<^verbatim>\<open>partition_spec\<close> are
  annotated only and bind nothing.
\<close>

definition XLAShardedTensor_class :: py_class where
  "XLAShardedTensor_class =
     \<lparr>class_name = ''XLAShardedTensor'',
      class_attrs = [''global_tensor'', ''local_shards'', ''__slots__'', ''new'', ''size'',
                     ''__repr__'', ''__torch__dispatch__'']\<rparr>"

text \<open>
  Whether a class has the hook of the engine, whose name is \<^verbatim>\<open>__torch_dispatch__\<close>.
\<close>

definition defines_torch_dispatch :: "py_class \<Rightarrow> bool" where
  "defines_torch_dispatch cls = (''__torch_dispatch__'' \<in> set (class_attrs cls))"

text \<open>
  The dtypes whose tensors the engine lets track gradients: the floating ones.
\<close>

definition differentiable :: "scalar_type \<Rightarrow> bool" where
  "differentiable dt = (dt = Float32 \<or> dt = Float64)"

text \<open>
  \<^verbatim>\<open>torch.Tensor._make_wrapper_subclass(cls, size, strides=, storage_offset=, dtype=,
  layout=, device=, requires_grad=)\<close>, a function of the engine: a new instance of
  \<^verbatim>\<open>cls\<close> with this metadata and nothing else set. Its checks on what \<^verbatim>\<open>new\<close>
  passes are the engine's, in the engine's order: the argument parser takes a bool
  for \<^verbatim>\<open>requires_grad\<close> and raises \<^verbatim>\<open>TypeError\<close> for anything else; a class
  without the hook \<^verbatim>\<open>__torch_dispatch__\<close> is refused with \<^verbatim>\<open>TypeError\<close>; and
  asking for gradients on a dtype that is not differentiable raises
  \<^verbatim>\<open>RuntimeError\<close>. A call that raises creates no object. The record of the
  instance does not keep the class: nothing in the file reads it, the two
  \<^verbatim>\<open>isinstance\<close> tests being true of every instance of \<^verbatim>\<open>XLAShardedTensor\<close> and
  of its subclasses.
\<close>

definition make_wrapper_subclass ::
  "py_class \<Rightarrow> nat list \<Rightarrow> nat list \<Rightarrow> nat \<Rightarrow> scalar_type \<Rightarrow> tensor_layout \<Rightarrow> string \<Rightarrow>
   pyval \<Rightarrow> world \<Rightarrow> (py_error + XLAShardedTensor) \<times> world" where
  "make_wrapper_subclass cls sz st off dt lay dev rg s =
     (case rg of
        PBool b \<Rightarrow>
          (if \<not> defines_torch_dispatch cls then (Inl TypeError, s)
           else if b \<and> \<not> differentiable dt
           then (Inl (RuntimeError
                        ''Only Tensors of floating point and complex dtype can require gradients''),
                 s)
           else
             (Inr \<lparr>base = \<lparr>tid = next_id s, sizes = sz, strides = st, storage_offset = off,
                           dtype = dt, layout = lay, device = dev, requires_grad = b\<rparr>,
                   global_tensor = None, local_shards = None,
                   mesh_shape = None, partition_spec = None\<rparr>,
              s\<lparr>next_id := Suc (next_id s)\<rparr>))
      | _ \<Rightarrow> (Inl TypeError, s))"

text \<open>
  \<^verbatim>\<open>elem.detach()\<close>: a new tensor object over the same data that does not track
  gradients.
\<close>

definition detach :: "tensor \<Rightarrow> world \<Rightarrow> tensor \<times> world" where
  "detach t s = (t\<lparr>tid := next_id s, requires_grad := False\<rparr>, s\<lparr>next_id := Suc (next_id s)\<rparr>)"

text \<open>\<^verbatim>\<open>kwargs.get(key, default)\<close> on the keyword dict of \<^verbatim>\<open>new\<close>.\<close>

definition kwargs_get :: "(string \<times> pyval) list \<Rightarrow> string \<Rightarrow> pyval \<Rightarrow> pyval" where
  "kwargs_get kwargs k d = (case map_of kwargs k of None \<Rightarrow> d | Some v \<Rightarrow> v)"

text \<open>
  \<^verbatim>\<open>new(cls, elem, mesh_shape, partition_spec, *args, **kwargs)\<close>, lines 66 to 81.
  \<^verbatim>\<open>cls\<close> goes to \<^verbatim>\<open>_make_wrapper_subclass\<close> as line 70 has it, and \<^verbatim>\<open>*args\<close> is
  not read; \<open>elem\<close> is a plain tensor. The three assignments follow the source's order;
  the right-hand side of the first reads \<^verbatim>\<open>r.requires_grad\<close>, the flag of the new
  instance.
\<close>

definition new ::
  "py_class \<Rightarrow> tensor \<Rightarrow> int list \<Rightarrow> int option list \<Rightarrow> (string \<times> pyval) list \<Rightarrow>
   world \<Rightarrow> (py_error + XLAShardedTensor) \<times> world" where
  "new cls elem mesh_shape' partition_spec' kwargs s =
     (case make_wrapper_subclass cls (sizes elem) (strides elem) (storage_offset elem)
             (dtype elem) (layout elem) (device elem)
             (kwargs_get kwargs ''requires_grad'' (PBool False)) s of
        (Inl e, s1) \<Rightarrow> (Inl e, s1)
      | (Inr r, s1) \<Rightarrow>
          (let (g, s2) = (if requires_grad (base r) then detach elem s1 else (elem, s1));
               r1 = r\<lparr>global_tensor := Some g\<rparr>;
               r2 = r1\<lparr>mesh_shape := Some mesh_shape'\<rparr>;
               r3 = r2\<lparr>partition_spec := Some partition_spec'\<rparr>
           in (Inr r3, s2)))"

section \<open>The size property\<close>

text \<open>\<^verbatim>\<open>t.size()\<close> on a plain tensor: its shape, as a \<^verbatim>\<open>torch.Size\<close>.\<close>

definition tensor_size :: "tensor \<Rightarrow> pyval" where
  "tensor_size t = PSize (sizes t)"

text \<open>
  The getter of the property \<^verbatim>\<open>size\<close>, lines 83 to 86: \<^verbatim>\<open>self.global_tensor.size()\<close>.
  The attribute access \<^verbatim>\<open>h.size\<close> evaluates to what the getter returns.
\<close>

definition size_property :: "XLAShardedTensor \<Rightarrow> py_error + pyval" where
  "size_property self =
     (case global_tensor self of
        None \<Rightarrow> Inl AttributeError
      | Some g \<Rightarrow> Inr (tensor_size g))"

text \<open>
  Calling a value, \<^verbatim>\<open>v(*args)\<close>. None of the values of \<open>pyval\<close> is callable (a
  \<^verbatim>\<open>torch.Size\<close> is a tuple): the call raises \<^verbatim>\<open>TypeError\<close>.
\<close>

fun py_call :: "pyval \<Rightarrow> pyval list \<Rightarrow> py_error + pyval" where
  "py_call v args = Inl TypeError"

text \<open>
  The expression \<^verbatim>\<open>h.size()\<close>: the attribute access comes first (the property of the
  subclass is found before the method \<^verbatim>\<open>size\<close> of \<^verbatim>\<open>torch.Tensor\<close>), then its value is
  called.
\<close>

definition size_call :: "XLAShardedTensor \<Rightarrow> py_error + pyval" where
  "size_call h = (case size_property h of Inl e \<Rightarrow> Inl e | Inr v \<Rightarrow> py_call v [])"

section \<open>Dispatch: unwrap, wrap and tree_map\<close>

text \<open>
  \<^verbatim>\<open>tree_map(fn, pytree)\<close> of \<^verbatim>\<open>torch.utils._pytree\<close>: tuples, lists and dicts are
  rebuilt around their mapped children (a dict keeps its keys, in order), and
  \<^verbatim>\<open>fn\<close> is applied to every other value, \<^verbatim>\<open>None\<close> included. The leaves are
  visited from left to right, so the first leaf on which \<^verbatim>\<open>fn\<close> raises decides the
  exception.
\<close>

fun tree_map :: "(pyval \<Rightarrow> py_error + pyval) \<Rightarrow> pyval \<Rightarrow> py_error + pyval"
  and tree_map_list :: "(pyval \<Rightarrow> py_error + pyval) \<Rightarrow> pyval list \<Rightarrow> py_error + pyval list"
  and tree_map_items ::
    "(pyval \<Rightarrow> py_error + pyval) \<Rightarrow> (string \<times> pyval) list \<Rightarrow> py_error + (string \<times> pyval) list"
  where
  "tree_map fn (PTuple xs) =
     (case tree_map_list fn xs of Inl e \<Rightarrow> Inl e | Inr ys \<Rightarrow> Inr (PTuple ys))"
| "tree_map fn (PList xs) =
     (case tree_map_list fn xs of Inl e \<Rightarrow> Inl e | Inr ys \<Rightarrow> Inr (PList ys))"
| "tree_map fn (PDict kvs) =
     (case tree_map_items fn kvs of Inl e \<Rightarrow> Inl e | Inr kws \<Rightarrow> Inr (PDict kws))"
| "tree_map fn PNone = fn PNone"
| "tree_map fn (PBool b) = fn (PBool b)"
| "tree_map fn (PInt i) = fn (PInt i)"
| "tree_map fn (PStr w) = fn (PStr w)"
| "tree_map fn (PSize n) = fn (PSize n)"
| "tree_map fn (PTensor t) = fn (PTensor t)"
| "tree_map fn (PHandle h) = fn (PHandle h)"
| "tree_map_list fn [] = Inr []"
| "tree_map_list fn (x # xs) =
     (case tree_map fn x of
        Inl e \<Rightarrow> Inl e
      | Inr y \<Rightarrow> (case tree_map_list fn xs of Inl e \<Rightarrow> Inl e | Inr ys \<Rightarrow> Inr (y # ys)))"
| "tree_map_items fn [] = Inr []"
| "tree_map_items fn (kv # kvs) =
     (case tree_map fn (snd kv) of
        Inl e \<Rightarrow> Inl e
      | Inr y \<Rightarrow>
          (case tree_map_items fn kvs of Inl e \<Rightarrow> Inl e | Inr kws \<Rightarrow> Inr ((fst kv, y) # kws)))"

text \<open>
  \<^verbatim>\<open>unwrap\<close>, lines 109 and 110: \<^verbatim>\<open>elem.global_tensor if isinstance(elem,
  XLAShardedTensor) else elem\<close>. Reading the slot of an instance on which it was never
  assigned raises \<^verbatim>\<open>AttributeError\<close>.
\<close>

definition unwrap :: "pyval \<Rightarrow> py_error + pyval" where
  "unwrap elem =
     (case elem of
        PHandle h \<Rightarrow>
          (case global_tensor h of None \<Rightarrow> Inl AttributeError | Some g \<Rightarrow> Inr (PTensor g))
      | _ \<Rightarrow> Inr elem)"

text \<open>
  \<^verbatim>\<open>isinstance(elem, torch.Tensor)\<close>: true of a plain tensor and of an instance of the
  subclass.
\<close>

definition isinstance_Tensor :: "pyval \<Rightarrow> bool" where
  "isinstance_Tensor elem = (case elem of PTensor _ \<Rightarrow> True | PHandle _ \<Rightarrow> True | _ \<Rightarrow> False)"

text \<open>
  The class call \<^verbatim>\<open>XLAShardedTensor(elem)\<close> of line 113. The class defines neither
  \<^verbatim>\<open>__new__\<close> nor \<^verbatim>\<open>__init__\<close>: its constructor function is a static method with the
  plain name \<^verbatim>\<open>new\<close>, which a class call does not run. The call is therefore served
  by the constructor that the class inherits from \<^verbatim>\<open>torch.Tensor\<close>, which is not part
  of this file: it is the parameter \<open>ctor\<close>, giving the tensor object of the new
  instance or raising. Nothing on this path assigns \<^verbatim>\<open>global_tensor\<close>,
  \<^verbatim>\<open>mesh_shape\<close> or \<^verbatim>\<open>partition_spec\<close>.
\<close>

type_synonym tensor_ctor = "pyval \<Rightarrow> py_error + tensor"

definition XLAShardedTensor_call :: "tensor_ctor \<Rightarrow> pyval \<Rightarrow> py_error + XLAShardedTensor" where
  "XLAShardedTensor_call ctor elem =
     (case ctor elem of
        Inl e \<Rightarrow> Inl e
      | Inr b \<Rightarrow> Inr \<lparr>base = b, global_tensor = None, local_shards = None,
                      mesh_shape = None, partition_spec = None\<rparr>)"

text \<open>
  \<^verbatim>\<open>wrap\<close>, lines 112 and 113: \<^verbatim>\<open>XLAShardedTensor(elem) if isinstance(elem,
  torch.Tensor) else elem\<close>.
\<close>

definition wrap :: "tensor_ctor \<Rightarrow> pyval \<Rightarrow> py_error + pyval" where
  "wrap ctor elem =
     (if isinstance_Tensor elem
      then (case XLAShardedTensor_call ctor elem of Inl e \<Rightarrow> Inl e | Inr h \<Rightarrow> Inr (PHandle h))
      else Inr elem)"

section \<open>The guard: no_dispatch\<close>

text \<open>
  \<^verbatim>\<open>guard = torch._C._DisableTorchDispatch()\<close> creates a guard object, and
  \<^verbatim>\<open>del guard\<close> drops the only reference to it, which destroys it at once.
  Interception is suspended while a guard object is alive.
\<close>

definition DisableTorchDispatch :: "world \<Rightarrow> world" where
  "DisableTorchDispatch s = s\<lparr>live_guards := Suc (live_guards s)\<rparr>"

definition del_guard :: "world \<Rightarrow> world" where
  "del_guard s = s\<lparr>live_guards := live_guards s - 1\<rparr>"

text \<open>
  \<^verbatim>\<open>with no_dispatch(): body\<close>, lines 15 to 21. The generator creates the guard and
  yields inside \<^verbatim>\<open>try\<close>; the body of the \<^verbatim>\<open>with\<close> statement runs at the
  \<^verbatim>\<open>yield\<close>. When the body returns, the generator resumes and runs the
  \<^verbatim>\<open>finally\<close> clause; when the body raises, the exception is thrown into the
  generator at the \<^verbatim>\<open>yield\<close>, the \<^verbatim>\<open>finally\<close> clause runs, and the same
  exception leaves the \<^verbatim>\<open>with\<close> statement.
\<close>

definition no_dispatch ::
  "(world \<Rightarrow> (py_error + 'a) \<times> world) \<Rightarrow> world \<Rightarrow> (py_error + 'a) \<times> world" where
  "no_dispatch body s =
     (case body (DisableTorchDispatch s) of
        (Inr v, s') \<Rightarrow> (Inr v, del_guard s')
      | (Inl e, s') \<Rightarrow> (Inl e, del_guard s'))"

section \<open>The handler: __torch__dispatch__\<close>

text \<open>
  An operation of the tensor engine, as the handler calls it: positional operands,
  keyword operands, and the state it runs in.
\<close>

type_synonym operation =
  "pyval list \<Rightarrow> (string \<times> pyval) list \<Rightarrow> world \<Rightarrow> (py_error + pyval) \<times> world"

text \<open>
  \<^verbatim>\<open>__torch__dispatch__(cls, func, types, args=(), kwargs=None)\<close>, lines 91 to 121;
  \<^verbatim>\<open>cls\<close> and \<^verbatim>\<open>types\<close> are not read. \<open>args\<close> is the tuple of positional
  operands, so \<^verbatim>\<open>tree_map(unwrap, args)\<close> maps its items. \<open>kwargs\<close> is \<open>None\<close> for
  Python's \<^verbatim>\<open>None\<close>, the default: \<^verbatim>\<open>tree_map\<close> returns it as it is, and unpacking
  it with \<^verbatim>\<open>**\<close> raises \<^verbatim>\<open>TypeError\<close>. Python evaluates the positional
  operands, then the keyword operands, then calls \<^verbatim>\<open>func\<close>, and maps \<^verbatim>\<open>wrap\<close> over
  what it returns. All of it is the body of \<^verbatim>\<open>with no_dispatch()\<close>.
\<close>

definition torch_dispatch ::
  "tensor_ctor \<Rightarrow> operation \<Rightarrow> pyval list \<Rightarrow> (string \<times> pyval) list option \<Rightarrow>
   world \<Rightarrow> (py_error + pyval) \<times> world" where
  "torch_dispatch ctor func args kwargs s =
     no_dispatch
       (\<lambda>s1.
          case tree_map_list unwrap args of
            Inl e \<Rightarrow> (Inl e, s1)
          | Inr uargs \<Rightarrow>
              (case kwargs of
                 None \<Rightarrow> (Inl TypeError, s1)
               | Some kvs \<Rightarrow>
                   (case tree_map_items unwrap kvs of
                      Inl e \<Rightarrow> (Inl e, s1)
                    | Inr ukwargs \<Rightarrow>
                        (case func uargs ukwargs s1 of
                           (Inl e, s2) \<Rightarrow> (Inl e, s2)
                         | (Inr res, s2) \<Rightarrow> (tree_map (wrap ctor) res, s2)))))
       s"

section \<open>The engine around the handler\<close>

text \<open>
  The handler runs \<open>func\<close> only inside \<^verbatim>\<open>with no_dispatch()\<close>, that is in a state
  with a live guard: two operations that agree on all such states give the same
  dispatched call. The definition of the engine below rests on this fact.
\<close>

lemma torch_dispatch_cong [fundef_cong]:
  assumes "ctor = ctor'" and "args = args'" and "kwargs = kwargs'" and "s = s'"
    and "\<And>a k t. 0 < live_guards t \<Longrightarrow> f a k t = g a k t"
  shows "torch_dispatch ctor f args kwargs s = torch_dispatch ctor' g args' kwargs' s'"
proof -
  have "f a k (DisableTorchDispatch s) = g a k (DisableTorchDispatch s)" for a k
    by (rule assms(5)) (simp add: DisableTorchDispatch_def)
  with assms(1-4) show ?thesis
    by (simp add: torch_dispatch_def no_dispatch_def split: sum.splits option.splits)
qed

text \<open>
  Modelled from the spec: the tensor engine that calls the handler is not part of
  this file. Section 4.3 of the specification has every operation intercepted unless
  interception is suspended (its step 1), and the source's comment names the mode in
  which that is so (\<^verbatim>\<open>enable_python_mode\<close>). \<open>engine_call ctor f\<close> is the engine
  performing the operation whose own implementation is \<open>f\<close>: with no live guard it
  enters the handler, counting the entry, and hands it the operation itself as
  \<^verbatim>\<open>func\<close>, so that the handler's call of \<^verbatim>\<open>func\<close> comes back to the engine;
  with a live guard it runs the implementation. The recursion ends because the
  handler calls \<^verbatim>\<open>func\<close> under a live guard only.
\<close>

function engine_call :: "tensor_ctor \<Rightarrow> operation \<Rightarrow> operation" where
  "engine_call ctor f args kwargs s =
     (if live_guards s = 0
      then torch_dispatch ctor (\<lambda>a k t. engine_call ctor f a k t) args (Some kwargs)
             (s\<lparr>entries := Suc (entries s)\<rparr>)
      else f args kwargs s)"
  by pat_completeness auto
termination
  by (relation "measure (\<lambda>(ctor, f, args, kwargs, s). if live_guards s = 0 then 1 else 0)")
    auto

declare engine_call.simps [simp del]

text \<open>
  Modelled from the spec: the implementation of an operation, applied to its
  operands, as the sequence of tensor operations it triggers. \<open>Return r\<close> finishes
  with the result or the exception \<open>r\<close>; \<open>Call f args kwargs k\<close> has the engine perform
  the operation implemented by \<open>f\<close> on the operands \<open>args\<close> and \<open>kwargs\<close> and continues
  as \<open>k v\<close> with its result \<open>v\<close>; an exception of the inner operation ends the outer one.
\<close>

datatype prog =
    Return "py_error + pyval"
  | Call "pyval list \<Rightarrow> (string \<times> pyval) list \<Rightarrow> prog" "pyval list" "(string \<times> pyval) list"
      "pyval \<Rightarrow> prog"

primrec run_prog :: "tensor_ctor \<Rightarrow> prog \<Rightarrow> world \<Rightarrow> (py_error + pyval) \<times> world" where
  "run_prog ctor (Return r) = (\<lambda>s. (r, s))"
| "run_prog ctor (Call f args kwargs k) =
     (\<lambda>s. case engine_call ctor (\<lambda>a kw. run_prog ctor (f a kw)) args kwargs s of
             (Inl e, s') \<Rightarrow> (Inl e, s')
           | (Inr v, s') \<Rightarrow> run_prog ctor (k v) s')"

definition run_op ::
  "tensor_ctor \<Rightarrow> (pyval list \<Rightarrow> (string \<times> pyval) list \<Rightarrow> prog) \<Rightarrow> operation" where
  "run_op ctor f args kwargs s = run_prog ctor (f args kwargs) s"

section \<open>Observations on trees\<close>

text \<open>The expression \<^verbatim>\<open>unwrap(wrap(x))\<close>.\<close>

definition unwrap_wrap :: "tensor_ctor \<Rightarrow> pyval \<Rightarrow> py_error + pyval" where
  "unwrap_wrap ctor x = (case wrap ctor x of Inl e \<Rightarrow> Inl e | Inr w \<Rightarrow> unwrap w)"

text \<open>
  A leaf function for comparing two trees up to their tensors: every tensor, plain
  or sharded, becomes \<^verbatim>\<open>None\<close>, and every other leaf stays. Two trees that
  \<open>tree_map blind\<close> sends to the same tree have the same containers, the same keys, the
  same leaves that are not tensors, and tensors at the same places.
\<close>

definition blind :: "pyval \<Rightarrow> py_error + pyval" where
  "blind x = Inr (if isinstance_Tensor x then PNone else x)"

section \<open>Sample inputs\<close>

text \<open>
  The scenario of the specification: a tensor of shape 8 by 10 for the mesh \<open>(4, 2)\<close>
  and the partition spec \<open>(0, None)\<close>, in a state with no live guard and no shard.
\<close>

definition t_8x10 :: tensor where
  "t_8x10 = \<lparr>tid = 0, sizes = [8, 10], strides = [10, 1], storage_offset = 0,
             dtype = Float32, layout = Strided, device = ''xla:0'', requires_grad = False\<rparr>"

definition w0 :: world where
  "w0 = \<lparr>next_id = 1, live_guards = 0, shards = [], entries = 0\<rparr>"

text \<open>
  A subclass of \<^verbatim>\<open>XLAShardedTensor\<close> that binds the hook under its right name, as a
  caller of the static method \<^verbatim>\<open>new\<close> may pass for \<^verbatim>\<open>cls\<close>.
\<close>

definition hooked_subclass :: py_class where
  "hooked_subclass =
     \<lparr>class_name = ''HookedShardedTensor'',
      class_attrs = ''__torch_dispatch__'' # class_attrs XLAShardedTensor_class\<rparr>"

text \<open>
  One possible behaviour of the constructor inherited from \<^verbatim>\<open>torch.Tensor\<close>: the new
  instance takes the metadata of the tensor it is given.
\<close>

definition sample_ctor :: tensor_ctor where
  "sample_ctor v =
     (case v of PTensor t \<Rightarrow> Inr t | PHandle h \<Rightarrow> Inr (base h) | _ \<Rightarrow> Inl TypeError)"

text \<open>Three operations: one returns its first operand, one raises, one triggers another.\<close>

definition op_first :: operation where
  "op_first args kwargs s =
     (case args of [] \<Rightarrow> (Inl (RuntimeError ''no operand''), s) | x # _ \<Rightarrow> (Inr x, s))"

definition op_fail :: operation where
  "op_fail args kwargs s = (Inl (RuntimeError ''boom''), s)"

definition op_nested :: "pyval list \<Rightarrow> (string \<times> pyval) list \<Rightarrow> prog" where
  "op_nested args kwargs =
     Call (\<lambda>a kw. Return (Inr (PTuple a))) args kwargs (\<lambda>v. Return (Inr (PList [v, PInt 1])))"

section \<open>Construction and the size query\<close>

text \<open>
  The class of the file binds \<^verbatim>\<open>__torch__dispatch__\<close>, which is not the name of the
  hook, so the engine refuses it: \<^verbatim>\<open>new\<close> with \<^verbatim>\<open>XLAShardedTensor\<close> for \<^verbatim>\<open>cls\<close>
  raises \<^verbatim>\<open>TypeError\<close> on line 69, whatever its other arguments, and lines 78 to 80
  do not run.
\<close>

lemma own_class_has_no_hook: "\<not> defines_torch_dispatch XLAShardedTensor_class"
  by (simp add: defines_torch_dispatch_def XLAShardedTensor_class_def)

lemma hooked_subclass_has_hook: "defines_torch_dispatch hooked_subclass"
  by (simp add: defines_torch_dispatch_def hooked_subclass_def)

lemma new_without_hook:
  assumes "\<not> defines_torch_dispatch cls"
  shows "new cls elem m p kwargs s = (Inl TypeError, s)"
  using assms
  by (cases "kwargs_get kwargs ''requires_grad'' (PBool False)")
    (simp_all add: new_def make_wrapper_subclass_def)

lemma new_own_class: "new XLAShardedTensor_class elem m p kwargs s = (Inl TypeError, s)"
  by (rule new_without_hook[OF own_class_has_no_hook])

text \<open>
  The two outcomes of \<^verbatim>\<open>new\<close> in general. Either the class has the hook and the
  keyword \<^verbatim>\<open>requires_grad\<close> is missing or a bool \<open>b\<close> that the dtype of \<open>elem\<close> allows,
  and \<^verbatim>\<open>new\<close> returns the handle below for every mesh shape and partition spec; or
  \<^verbatim>\<open>new\<close> raises, the same exception for every mesh shape and partition spec, and
  leaves the state as it was.
\<close>

lemma new_succeeds:
  assumes "defines_torch_dispatch cls"
    and "kwargs_get kwargs ''requires_grad'' (PBool False) = PBool b"
    and "b \<longrightarrow> differentiable (dtype elem)"
  shows "new cls elem m p kwargs s =
    (Inr \<lparr>base = \<lparr>tid = next_id s, sizes = sizes elem, strides = strides elem,
                  storage_offset = storage_offset elem, dtype = dtype elem,
                  layout = layout elem, device = device elem, requires_grad = b\<rparr>,
          global_tensor =
            Some (if b then elem\<lparr>tid := Suc (next_id s), requires_grad := False\<rparr> else elem),
          local_shards = None, mesh_shape = Some m, partition_spec = Some p\<rparr>,
     s\<lparr>next_id := (if b then Suc (Suc (next_id s)) else Suc (next_id s))\<rparr>)"
  using assms by (auto simp: new_def make_wrapper_subclass_def detach_def)

lemma new_outcome:
  "(defines_torch_dispatch cls \<and>
    (\<exists>b. kwargs_get kwargs ''requires_grad'' (PBool False) = PBool b \<and>
         (b \<longrightarrow> differentiable (dtype elem)))) \<or>
   (\<exists>e. \<forall>m p. new cls elem m p kwargs s = (Inl e, s))"
proof (cases "defines_torch_dispatch cls")
  case False
  then have "\<forall>m p. new cls elem m p kwargs s = (Inl TypeError, s)"
    by (simp add: new_without_hook)
  then show ?thesis by blast
next
  case True
  show ?thesis
  proof (cases "kwargs_get kwargs ''requires_grad'' (PBool False)")
    case (PBool b)
    show ?thesis
    proof (cases "b \<and> \<not> differentiable (dtype elem)")
      case True
      with PBool \<open>defines_torch_dispatch cls\<close> have "\<forall>m p. new cls elem m p kwargs s =
        (Inl (RuntimeError
           ''Only Tensors of floating point and complex dtype can require gradients''), s)"
        by (simp add: new_def make_wrapper_subclass_def)
      then show ?thesis by blast
    next
      case False
      with PBool \<open>defines_torch_dispatch cls\<close> show ?thesis by blast
    qed
  qed (simp_all add: new_def make_wrapper_subclass_def)
qed

lemma new_returns:
  assumes "new cls elem m p kwargs s = (Inr h, s')"
  obtains b where "defines_torch_dispatch cls"
    and "kwargs_get kwargs ''requires_grad'' (PBool False) = PBool b"
    and "b \<longrightarrow> differentiable (dtype elem)"
proof -
  from new_outcome[of cls kwargs elem s] assms
  have "defines_torch_dispatch cls \<and>
        (\<exists>b. kwargs_get kwargs ''requires_grad'' (PBool False) = PBool b \<and>
          (b \<longrightarrow> differentiable (dtype elem)))"
    by auto
  with that show ?thesis by blast
qed

lemma sizes_t_8x10: "sizes t_8x10 = [8, 10]"
  by (simp add: t_8x10_def)

lemma new_scenario:
  "new hooked_subclass t_8x10 [4, 2] p [] w0 =
     (Inr \<lparr>base = \<lparr>tid = 1, sizes = [8, 10], strides = [10, 1], storage_offset = 0,
                   dtype = Float32, layout = Strided, device = ''xla:0'',
                   requires_grad = False\<rparr>,
           global_tensor = Some t_8x10, local_shards = None,
           mesh_shape = Some [4, 2], partition_spec = Some p\<rparr>,
      w0\<lparr>next_id := 2\<rparr>)"
  by (simp add: new_succeeds[OF hooked_subclass_has_hook, of "[]" False] kwargs_get_def
      t_8x10_def w0_def)

text \<open>
  What lines 78 to 80 do when they run, that is for a class that the engine accepts.
  The handle reports the shape of \<open>elem\<close>, whatever \<^verbatim>\<open>local_shards\<close> holds.
\<close>

lemma returned_handle_size:
  assumes "new cls elem m p kwargs s = (Inr h, s')"
  shows "size_property h = Inr (PSize (sizes elem)) \<and>
         (\<forall>ws. size_property (h\<lparr>local_shards := ws\<rparr>) = Inr (PSize (sizes elem)))"
proof -
  from assms obtain b where "defines_torch_dispatch cls"
    and "kwargs_get kwargs ''requires_grad'' (PBool False) = PBool b"
    and "b \<longrightarrow> differentiable (dtype elem)"
    by (rule new_returns)
  from new_succeeds[OF this, of m p s] assms show ?thesis
    by (auto simp: size_property_def tensor_size_def)
qed

text \<open>
  With gradient tracking requested, the slot holds what \<^verbatim>\<open>elem.detach()\<close> returned,
  an object with an identity of its own (different from that of \<open>elem\<close>, \<open>elem\<close> being an
  object of the state), equal to \<open>elem\<close> in everything but its identity and its gradient
  flag, which is off; otherwise the slot holds \<open>elem\<close> itself.
\<close>

lemma returned_handle_global_tensor:
  assumes "new cls elem m p kwargs s = (Inr h, s')"
  shows "\<exists>g. global_tensor h = Some g \<and>
           (if kwargs_get kwargs ''requires_grad'' (PBool False) = PBool True
            then \<not> requires_grad g \<and> next_id s \<le> tid g \<and> tid g < next_id s' \<and>
                 (tid elem < next_id s \<longrightarrow> tid g \<noteq> tid elem) \<and>
                 g = elem\<lparr>tid := tid g, requires_grad := False\<rparr>
            else g = elem)"
proof -
  from assms obtain b where "defines_torch_dispatch cls"
    and "kwargs_get kwargs ''requires_grad'' (PBool False) = PBool b"
    and "b \<longrightarrow> differentiable (dtype elem)"
    by (rule new_returns)
  from new_succeeds[OF this, of m p s] assms this(2) show ?thesis
    by auto
qed

text \<open>
  The three assignments and nothing else: \<^verbatim>\<open>local_shards\<close> is still \<^verbatim>\<open>None\<close>, and
  of the state only the counter of object identities has moved.
\<close>

lemma returned_handle_fields:
  assumes "new cls elem m p kwargs s = (Inr h, s')"
  shows "(\<exists>g. global_tensor h = Some g) \<and> mesh_shape h = Some m \<and>
         partition_spec h = Some p \<and> local_shards h = None \<and>
         s' = s\<lparr>next_id := next_id s'\<rparr>"
proof -
  from assms obtain b where "defines_torch_dispatch cls"
    and "kwargs_get kwargs ''requires_grad'' (PBool False) = PBool b"
    and "b \<longrightarrow> differentiable (dtype elem)"
    by (rule new_returns)
  from new_succeeds[OF this, of m p s] assms show ?thesis
    by auto
qed

text \<open>
  On a handle whose slot is assigned, \<^verbatim>\<open>h.size\<close> is the shape and \<^verbatim>\<open>h.size()\<close>
  raises \<^verbatim>\<open>TypeError\<close>, the shape not being callable.
\<close>

lemma assigned_slot_size:
  assumes "global_tensor h = Some g"
  shows "size_property h = Inr (PSize (sizes g)) \<and> size_call h = Inl TypeError"
  using assms by (simp add: size_property_def size_call_def tensor_size_def)

text \<open>
  Claim C3, on the code. Constructing a handle of the file's class and asking its size
  raises \<^verbatim>\<open>TypeError\<close> in the construction, for every tensor, mesh shape, partition
  spec and keywords: there is no handle to report the shape of \<open>elem\<close>.
\<close>

theorem construct_size_raises:
  "(case fst (new XLAShardedTensor_class elem m p kwargs s) of
      Inl e \<Rightarrow> Inl e
    | Inr h \<Rightarrow> size_property h) = Inl TypeError"
  by (simp add: new_own_class)

text \<open>
  Claim C4, on the code. With gradient tracking requested or not, constructing a handle
  of the file's class raises \<^verbatim>\<open>TypeError\<close> before line 78: no \<^verbatim>\<open>global_tensor\<close> is
  stored, neither a detached tensor nor \<open>elem\<close>.
\<close>

theorem construct_stores_no_global_tensor:
  "(case fst (new XLAShardedTensor_class elem m p [(''requires_grad'', PBool b)] s) of
      Inl e \<Rightarrow> Inl e
    | Inr h \<Rightarrow> Inr (global_tensor h)) = Inl TypeError \<and>
   (case fst (new XLAShardedTensor_class elem m p [] s) of
      Inl e \<Rightarrow> Inl e
    | Inr h \<Rightarrow> Inr (global_tensor h)) = Inl TypeError"
  by (simp add: new_own_class)

text \<open>
  Claim C9, on the code. On every instance that the file constructs, the slot
  \<^verbatim>\<open>global_tensor\<close> is not assigned: on what the class call returns (unless the
  inherited constructor raises), \<^verbatim>\<open>h.size\<close> raises \<^verbatim>\<open>AttributeError\<close> instead of
  being the shape, and \<^verbatim>\<open>h.size()\<close> raises \<^verbatim>\<open>AttributeError\<close>, not
  \<^verbatim>\<open>TypeError\<close>; and \<^verbatim>\<open>new\<close> returns no instance of the file's class.
\<close>

theorem size_raises_on_constructed_handles:
  "(case XLAShardedTensor_call ctor v of Inl e \<Rightarrow> Inl e | Inr h \<Rightarrow> size_property h) =
     (case ctor v of Inl e \<Rightarrow> Inl e | Inr b \<Rightarrow> Inl AttributeError) \<and>
   (case XLAShardedTensor_call ctor v of Inl e \<Rightarrow> Inl e | Inr h \<Rightarrow> size_call h) =
     (case ctor v of Inl e \<Rightarrow> Inl e | Inr b \<Rightarrow> Inl AttributeError) \<and>
   fst (new XLAShardedTensor_class elem m p kwargs s) = Inl TypeError"
  by (simp add: XLAShardedTensor_call_def size_property_def size_call_def new_own_class
      split: sum.splits)

text \<open>
  Claim C10, on the code. Constructing a handle of the file's class raises
  \<^verbatim>\<open>TypeError\<close> and leaves the state as it was: none of the three assignments of lines
  78 to 80 runs. The class call assigns none of the three fields either; what it
  returns has \<^verbatim>\<open>local_shards\<close> at \<^verbatim>\<open>None\<close>, and every other attribute unassigned.
\<close>

theorem construct_sets_no_field:
  "new XLAShardedTensor_class elem m p kwargs s = (Inl TypeError, s) \<and>
   XLAShardedTensor_call ctor v =
     (case ctor v of
        Inl e \<Rightarrow> Inl e
      | Inr b \<Rightarrow> Inr \<lparr>base = b, global_tensor = None, local_shards = None,
                      mesh_shape = None, partition_spec = None\<rparr>)"
  by (simp add: new_own_class XLAShardedTensor_call_def)

text \<open>
  Claim C2, as the code has it. \<^verbatim>\<open>new\<close> does not compare the partition spec with the
  rank of the tensor, nor look into it at all. For every class, whether construction
  returns or raises does not depend on the partition spec: when it returns a handle
  for one partition spec, it returns for any other the same handle but for the
  partition spec stored, which is the one given; and when it raises, it raises the
  same for any other.
\<close>

theorem new_performs_no_validation:
  "(\<forall>h s'. new cls elem m p kwargs s = (Inr h, s') \<longrightarrow>
      partition_spec h = Some p \<and>
      new cls elem m p' kwargs s = (Inr (h\<lparr>partition_spec := Some p'\<rparr>), s')) \<and>
   (\<forall>e. fst (new cls elem m p kwargs s) = Inl e \<longrightarrow> fst (new cls elem m p' kwargs s) = Inl e)"
proof (intro conjI allI impI)
  fix h s'
  assume n: "new cls elem m p kwargs s = (Inr h, s')"
  then obtain b where b: "defines_torch_dispatch cls"
    "kwargs_get kwargs ''requires_grad'' (PBool False) = PBool b"
    "b \<longrightarrow> differentiable (dtype elem)"
    by (rule new_returns)
  from new_succeeds[OF b, of m p s] n show "partition_spec h = Some p"
    by auto
  from new_succeeds[OF b, of m p s] new_succeeds[OF b, of m p' s] n
  show "new cls elem m p' kwargs s = (Inr (h\<lparr>partition_spec := Some p'\<rparr>), s')"
    by auto
next
  fix e
  assume f: "fst (new cls elem m p kwargs s) = Inl e"
  from new_outcome[of cls kwargs elem s]
  show "fst (new cls elem m p' kwargs s) = Inl e"
  proof
    assume "defines_torch_dispatch cls \<and>
        (\<exists>b. kwargs_get kwargs ''requires_grad'' (PBool False) = PBool b \<and>
          (b \<longrightarrow> differentiable (dtype elem)))"
    then obtain b where "defines_torch_dispatch cls"
      and "kwargs_get kwargs ''requires_grad'' (PBool False) = PBool b"
      and "b \<longrightarrow> differentiable (dtype elem)"
      by blast
    from new_succeeds[OF this, of m p s] f show ?thesis by simp
  next
    assume "\<exists>e. \<forall>m p. new cls elem m p kwargs s = (Inl e, s)"
    then obtain e' where e': "\<forall>m p. new cls elem m p kwargs s = (Inl e', s)" ..
    with f have "e' = e" by simp
    with e' show ?thesis by simp
  qed
qed

theorem new_performs_no_validation_witness:
  "length [Some (0::int)] \<noteq> length (sizes t_8x10) \<and>
   (\<exists>h s'. new hooked_subclass t_8x10 [4, 2] [Some 0] [] w0 = (Inr h, s') \<and>
      partition_spec h = Some [Some 0]) \<and>
   fst (new XLAShardedTensor_class t_8x10 [4, 2] [Some 0] [] w0) =
     fst (new XLAShardedTensor_class t_8x10 [4, 2] [Some 0, None] [] w0)"
  using
    new_performs_no_validation[of hooked_subclass t_8x10 "[4, 2]" "[Some 0, None]" "[]" w0
      "[Some 0]"]
    new_performs_no_validation[of XLAShardedTensor_class t_8x10 "[4, 2]" "[Some 0, None]" "[]"
      w0 "[Some 0]"]
  by (simp add: new_scenario sizes_t_8x10 new_own_class)

text \<open>
  Claim C2, as stated, fails. For the tensor of shape 8 by 10 and a class that binds
  the hook, a partition spec of length one is accepted and stored. For the class of the
  file the same call raises, but it raises the same \<^verbatim>\<open>TypeError\<close> with the partition
  spec \<open>(0, None)\<close> of the right length: the exception is the engine's refusal of the
  class, not a validation of the partition spec.
\<close>

theorem new_accepts_mismatched_spec:
  "length [Some (0::int)] \<noteq> length (sizes t_8x10) \<and>
   fst (new hooked_subclass t_8x10 [4, 2] [Some 0] [] w0) =
     Inr \<lparr>base = \<lparr>tid = 1, sizes = [8, 10], strides = [10, 1], storage_offset = 0,
                  dtype = Float32, layout = Strided, device = ''xla:0'',
                  requires_grad = False\<rparr>,
          global_tensor = Some t_8x10, local_shards = None,
          mesh_shape = Some [4, 2], partition_spec = Some [Some 0]\<rparr> \<and>
   fst (new XLAShardedTensor_class t_8x10 [4, 2] [Some 0] [] w0) = Inl TypeError \<and>
   fst (new XLAShardedTensor_class t_8x10 [4, 2] [Some 0, None] [] w0) = Inl TypeError"
  by (simp add: new_scenario sizes_t_8x10 new_own_class)

section \<open>The dispatched call\<close>

text \<open>
  The state a dispatched call ends in: the guard is deleted after whatever the body
  did, and the body changes the state through \<open>func\<close> only.
\<close>

lemma torch_dispatch_state:
  "snd (torch_dispatch ctor func args kwargs s) =
     del_guard
       (case tree_map_list unwrap args of
          Inl e \<Rightarrow> DisableTorchDispatch s
        | Inr ua \<Rightarrow>
            (case kwargs of
               None \<Rightarrow> DisableTorchDispatch s
             | Some kvs \<Rightarrow>
                 (case tree_map_items unwrap kvs of
                    Inl e \<Rightarrow> DisableTorchDispatch s
                  | Inr uk \<Rightarrow> snd (func ua uk (DisableTorchDispatch s)))))"
  by (simp add: torch_dispatch_def no_dispatch_def split: sum.splits option.splits prod.splits)

lemma torch_dispatch_error:
  assumes "tree_map_list unwrap args = Inr ua" and "tree_map_items unwrap kvs = Inr uk"
    and "fst (func ua uk (DisableTorchDispatch s)) = Inl e"
  shows "fst (torch_dispatch ctor func args (Some kvs) s) = Inl e"
  using assms
  by (cases "func ua uk (DisableTorchDispatch s)")
    (simp add: torch_dispatch_def no_dispatch_def)

lemma engine_call_guarded:
  "0 < live_guards s \<Longrightarrow> engine_call ctor f args kwargs s = f args kwargs s"
  by (subst engine_call.simps) simp

lemma torch_dispatch_engine:
  "torch_dispatch ctor (engine_call ctor f) args kwargs s = torch_dispatch ctor f args kwargs s"
  by (rule torch_dispatch_cong) (simp_all add: engine_call_guarded)

lemma engine_call_unguarded:
  "live_guards s = 0 \<Longrightarrow>
     engine_call ctor f args kwargs s =
       torch_dispatch ctor f args (Some kwargs) (s\<lparr>entries := Suc (entries s)\<rparr>)"
  by (subst engine_call.simps) (simp add: torch_dispatch_engine)

text \<open>
  With the default \<^verbatim>\<open>kwargs=None\<close> the call of \<^verbatim>\<open>func\<close> raises before \<^verbatim>\<open>func\<close>
  runs: \<^verbatim>\<open>**None\<close> is not a mapping.
\<close>

lemma torch_dispatch_default_kwargs:
  assumes "tree_map_list unwrap args = Inr ua"
  shows "fst (torch_dispatch ctor func args None s) = Inl TypeError"
  using assms by (simp add: torch_dispatch_def no_dispatch_def)

text \<open>
  Claim C6. Let the operation leave as many guards alive as it finds. Then a
  dispatched call ends with as many live guards as it began with, whether it returns
  or raises, so the guard it created has been released; and when the operation,
  called on the unwrapped operands, raises \<open>e\<close>, the dispatched call raises the same
  \<open>e\<close>.
\<close>

theorem guard_released_on_every_exit:
  assumes "\<forall>a k. live_guards (snd (func a k (DisableTorchDispatch s))) =
                 live_guards (DisableTorchDispatch s)"
  shows "live_guards (snd (torch_dispatch ctor func args kwargs s)) = live_guards s \<and>
         (\<forall>kvs ua uk e.
            kwargs = Some kvs \<and> tree_map_list unwrap args = Inr ua \<and>
            tree_map_items unwrap kvs = Inr uk \<and>
            fst (func ua uk (DisableTorchDispatch s)) = Inl e \<longrightarrow>
            fst (torch_dispatch ctor func args kwargs s) = Inl e)"
proof
  show "live_guards (snd (torch_dispatch ctor func args kwargs s)) = live_guards s"
    using assms
    by (simp add: torch_dispatch_state del_guard_def split: sum.splits option.splits)
      (simp add: DisableTorchDispatch_def)
next
  show "\<forall>kvs ua uk e.
            kwargs = Some kvs \<and> tree_map_list unwrap args = Inr ua \<and>
            tree_map_items unwrap kvs = Inr uk \<and>
            fst (func ua uk (DisableTorchDispatch s)) = Inl e \<longrightarrow>
            fst (torch_dispatch ctor func args kwargs s) = Inl e"
    using torch_dispatch_error by blast
qed

theorem guard_released_on_every_exit_witness:
  "live_guards (snd (torch_dispatch sample_ctor op_fail [PTensor t_8x10] (Some []) w0)) =
     live_guards w0 \<and>
   fst (torch_dispatch sample_ctor op_fail [PTensor t_8x10] (Some []) w0) =
     Inl (RuntimeError ''boom'') \<and>
   live_guards (snd (torch_dispatch sample_ctor op_first [PTensor t_8x10] (Some []) w0)) =
     live_guards w0"
proof -
  have bal: "\<forall>a k. live_guards (snd (op_fail a k (DisableTorchDispatch w0))) =
      live_guards (DisableTorchDispatch w0)"
    by (simp add: op_fail_def)
  have bal': "\<forall>a k. live_guards (snd (op_first a k (DisableTorchDispatch w0))) =
      live_guards (DisableTorchDispatch w0)"
    by (simp add: op_first_def split: list.splits)
  have un: "tree_map_list unwrap [PTensor t_8x10] = Inr [PTensor t_8x10]"
    by (simp add: unwrap_def)
  have er: "fst (op_fail [PTensor t_8x10] [] (DisableTorchDispatch w0)) =
      Inl (RuntimeError ''boom'')"
    by (simp add: op_fail_def)
  from guard_released_on_every_exit[of op_fail w0 sample_ctor "[PTensor t_8x10]" "Some []", OF bal]
    guard_released_on_every_exit[of op_first w0 sample_ctor "[PTensor t_8x10]" "Some []", OF bal']
    un er
  show ?thesis
    by simp
qed

section \<open>Re-entry\<close>

text \<open>
  Under a live guard the engine runs an operation's implementation, and the handler
  is no different with the engine's operation than with the implementation.
\<close>

lemma prog_guarded:
  "0 < live_guards s \<Longrightarrow>
     entries (snd (run_prog ctor p s)) = entries s \<and>
     live_guards (snd (run_prog ctor p s)) = live_guards s"
proof (induction p arbitrary: s)
  case (Return r)
  then show ?case by simp
next
  case (Call f args kwargs k)
  obtain r s1 where run: "run_prog ctor (f args kwargs) s = (r, s1)"
    by (cases "run_prog ctor (f args kwargs) s")
  have "entries (snd (run_prog ctor (f args kwargs) s)) = entries s \<and>
        live_guards (snd (run_prog ctor (f args kwargs) s)) = live_guards s"
    by (rule Call.IH(1)[OF rangeI rangeI]) (simp add: Call.prems)
  with run have s1: "entries s1 = entries s" "live_guards s1 = live_guards s"
    by simp_all
  show ?case
  proof (cases r)
    case (Inl e)
    with run s1 Call.prems show ?thesis by (simp add: engine_call_guarded)
  next
    case (Inr v)
    have "entries (snd (run_prog ctor (k v) s1)) = entries s1 \<and>
          live_guards (snd (run_prog ctor (k v) s1)) = live_guards s1"
      by (rule Call.IH(2)[OF rangeI]) (simp add: Call.prems s1)
    with Inr run s1 Call.prems show ?thesis by (simp add: engine_call_guarded)
  qed
qed

text \<open>
  Claim C7. The handler calls \<open>func\<close> under a live guard only: operations that agree
  on the states with a live guard give the same dispatched call. So, when the engine
  hands the handler an operation whose implementation triggers further operations,
  the dispatched call ends with the count of entries it began with: nothing inside it
  enters the handler again. One operation performed by the engine enters the handler
  once when no guard is alive and not at all otherwise. (That the engine's recursion
  through the handler ends at all is the termination proof of \<open>engine_call\<close>.)
\<close>

theorem dispatch_never_reenters:
  "((\<forall>a k t. 0 < live_guards t \<longrightarrow> g a k t = g' a k t) \<longrightarrow>
      torch_dispatch ctor g args kwargs s = torch_dispatch ctor g' args kwargs s) \<and>
   entries (snd (torch_dispatch ctor (engine_call ctor (run_op ctor f)) args kwargs s)) =
     entries s \<and>
   entries (snd (engine_call ctor (run_op ctor f) args kw s)) =
     (if live_guards s = 0 then Suc (entries s) else entries s)"
proof (intro conjI impI)
  assume "\<forall>a k t. 0 < live_guards t \<longrightarrow> g a k t = g' a k t"
  then show "torch_dispatch ctor g args kwargs s = torch_dispatch ctor g' args kwargs s"
    by (intro torch_dispatch_cong) simp_all
next
  have inner: "entries (snd (run_op ctor f a k (DisableTorchDispatch t))) = entries t" for a k t
    using prog_guarded[of "DisableTorchDispatch t" ctor "f a k"]
    by (simp add: run_op_def DisableTorchDispatch_def)
  have disp: "entries (snd (torch_dispatch ctor (run_op ctor f) a k t)) = entries t" for a k t
    by (simp add: torch_dispatch_state del_guard_def inner split: sum.splits option.splits)
      (simp add: DisableTorchDispatch_def)
  show "entries (snd (torch_dispatch ctor (engine_call ctor (run_op ctor f)) args kwargs s)) =
      entries s"
    by (simp add: torch_dispatch_engine disp)
  show "entries (snd (engine_call ctor (run_op ctor f) args kw s)) =
      (if live_guards s = 0 then Suc (entries s) else entries s)"
  proof (cases "live_guards s = 0")
    case True
    then show ?thesis by (simp add: engine_call_unguarded disp)
  next
    case False
    then show ?thesis
      using prog_guarded[of s ctor "f args kw"] by (simp add: engine_call_guarded run_op_def)
  qed
qed

theorem dispatch_never_reenters_witness:
  "torch_dispatch sample_ctor op_first [PTensor t_8x10] (Some []) w0 =
     torch_dispatch sample_ctor (\<lambda>a k t. if 0 < live_guards t then op_first a k t else op_fail a k t)
       [PTensor t_8x10] (Some []) w0 \<and>
   entries (snd (torch_dispatch sample_ctor (engine_call sample_ctor (run_op sample_ctor op_nested))
       [PTensor t_8x10] (Some []) w0)) = 0 \<and>
   entries (snd (engine_call sample_ctor (run_op sample_ctor op_nested) [PTensor t_8x10] [] w0)) =
     1"
  using dispatch_never_reenters[of op_first
      "\<lambda>a k t. if 0 < live_guards t then op_first a k t else op_fail a k t"
      sample_ctor "[PTensor t_8x10]" "Some []" w0 op_nested "[]"]
  by (simp add: w0_def)

section \<open>Shards\<close>

text \<open>
  Claim C8. No function of the file writes a field of an existing shard:
  constructing another shard leaves every shard of the store as it was, and
  \<^verbatim>\<open>new\<close>, creating and deleting the guard, and a dispatched call (directly or
  through the engine) of an operation that itself leaves the store alone, leave the
  store as it was. \<open>size_property\<close>, \<open>unwrap\<close> and \<open>wrap\<close> are functions of their
  argument and have no state to change.
\<close>

theorem shards_never_written:
  "(\<forall>i<length (shards s). shards (snd (XLAShard_init d r s)) ! i = shards s ! i) \<and>
   shards (snd (new cls elem m p kwargs s)) = shards s \<and>
   shards (DisableTorchDispatch s) = shards s \<and>
   shards (del_guard s) = shards s \<and>
   ((\<forall>a k t. shards (snd (func a k t)) = shards t) \<longrightarrow>
      shards (snd (torch_dispatch ctor func args okw s)) = shards s \<and>
      shards (snd (engine_call ctor func args kw s)) = shards s)"
proof (intro conjI impI)
  show "\<forall>i<length (shards s). shards (snd (XLAShard_init d r s)) ! i = shards s ! i"
    by (simp add: XLAShard_init_def nth_append)
  show "shards (snd (new cls elem m p kwargs s)) = shards s"
    using new_outcome[of cls kwargs elem s]
  proof
    assume "defines_torch_dispatch cls \<and>
        (\<exists>b. kwargs_get kwargs ''requires_grad'' (PBool False) = PBool b \<and>
          (b \<longrightarrow> differentiable (dtype elem)))"
    then obtain b where "defines_torch_dispatch cls"
      and "kwargs_get kwargs ''requires_grad'' (PBool False) = PBool b"
      and "b \<longrightarrow> differentiable (dtype elem)"
      by blast
    from new_succeeds[OF this, of m p s] show ?thesis by simp
  next
    assume "\<exists>e. \<forall>m p. new cls elem m p kwargs s = (Inl e, s)"
    then show ?thesis by auto
  qed
  show "shards (DisableTorchDispatch s) = shards s"
    by (simp add: DisableTorchDispatch_def)
  show "shards (del_guard s) = shards s"
    by (simp add: del_guard_def)
next
  assume pres: "\<forall>a k t. shards (snd (func a k t)) = shards t"
  have disp: "shards (snd (torch_dispatch ctor func a k t)) = shards t" for a k t
    using pres
    by (simp add: torch_dispatch_state del_guard_def DisableTorchDispatch_def
        split: sum.splits option.splits)
  show "shards (snd (torch_dispatch ctor func args okw s)) = shards s"
    by (rule disp)
  show "shards (snd (engine_call ctor func args kw s)) = shards s"
  proof (cases "live_guards s = 0")
    case True
    then show ?thesis by (simp add: engine_call_unguarded disp)
  next
    case False
    then show ?thesis using pres by (simp add: engine_call_guarded)
  qed
qed

theorem shards_never_written_witness:
  "shards (snd (XLAShard_init t_8x10 3 (snd (XLAShard_init t_8x10 0 w0)))) ! 0 =
     \<lparr>data = t_8x10, rank = 0\<rparr> \<and>
   shards (snd (torch_dispatch sample_ctor op_first [PTensor t_8x10] (Some [])
     (snd (XLAShard_init t_8x10 0 w0)))) = [\<lparr>data = t_8x10, rank = 0\<rparr>]"
proof -
  have pres: "\<forall>a k t. shards (snd (op_first a k t)) = shards t"
    by (simp add: op_first_def split: list.splits)
  have len: "0 < length (shards (snd (XLAShard_init t_8x10 0 w0)))"
    by (simp add: XLAShard_init_def)
  from shards_never_written[of "snd (XLAShard_init t_8x10 0 w0)" t_8x10 3
      XLAShardedTensor_class t_8x10 "[]" "[]" "[]"
      op_first sample_ctor "[PTensor t_8x10]" "Some []" "[]"] pres len
  show ?thesis
    by (simp add: XLAShard_init_def w0_def)
qed

section \<open>Wrapping\<close>

text \<open>
  Claim C5, on the code. For every behaviour of the inherited constructor,
  \<^verbatim>\<open>unwrap(wrap(x))\<close> on a plain tensor \<open>x\<close> raises: the constructor's own exception,
  or \<^verbatim>\<open>AttributeError\<close> when \<^verbatim>\<open>unwrap\<close> reads the slot \<^verbatim>\<open>global_tensor\<close> that
  nothing assigned. The same holds of \<^verbatim>\<open>wrap(unwrap(h)).global_tensor\<close>, since
  \<^verbatim>\<open>unwrap(h)\<close> is the plain tensor that \<open>h\<close> holds.
\<close>

theorem roundtrip_raises:
  "unwrap_wrap ctor (PTensor x) =
     (case ctor (PTensor x) of Inl e \<Rightarrow> Inl e | Inr b \<Rightarrow> Inl AttributeError) \<and>
   unwrap (PHandle (h\<lparr>global_tensor := Some x\<rparr>)) = Inr (PTensor x)"
  by (simp add: unwrap_wrap_def wrap_def isinstance_Tensor_def XLAShardedTensor_call_def
      unwrap_def split: sum.splits)

text \<open>
  Claim C1, on the code. An operation that returns its first operand, dispatched on
  one plain tensor \<open>x\<close>, returns (unless the inherited constructor raises) an instance
  of the class whose \<^verbatim>\<open>global_tensor\<close>, \<^verbatim>\<open>mesh_shape\<close> and \<^verbatim>\<open>partition_spec\<close>
  were never assigned, not a handle that holds \<open>x\<close>; and dispatching an operation
  on such an instance raises \<^verbatim>\<open>AttributeError\<close>.
\<close>

theorem dispatch_result_not_wrapped:
  "fst (torch_dispatch ctor op_first [PTensor x] (Some []) s) =
     (case ctor (PTensor x) of
        Inl e \<Rightarrow> Inl e
      | Inr b \<Rightarrow> Inr (PHandle \<lparr>base = b, global_tensor = None, local_shards = None,
                                mesh_shape = None, partition_spec = None\<rparr>)) \<and>
   fst (torch_dispatch ctor op_first
          [PHandle \<lparr>base = b', global_tensor = None, local_shards = None,
                    mesh_shape = None, partition_spec = None\<rparr>] (Some []) s) = Inl AttributeError"
  by (simp add: torch_dispatch_def no_dispatch_def unwrap_def op_first_def wrap_def
      isinstance_Tensor_def XLAShardedTensor_call_def split: sum.splits)

text \<open>
  What does hold of the result tree: \<^verbatim>\<open>tree_map(wrap, res)\<close>, when it returns, keeps
  the containers, the keys and the leaves that are not tensors, and has a tensor
  wherever \<open>res\<close> has one.
\<close>

lemma wrap_structure:
  "tree_map fn v = Inr v' \<Longrightarrow> fn = wrap ctor \<Longrightarrow> tree_map blind v' = tree_map blind v"
  "tree_map_list fn xs = Inr ys \<Longrightarrow> fn = wrap ctor \<Longrightarrow> tree_map_list blind ys = tree_map_list blind xs"
  "tree_map_items fn kvs = Inr kws \<Longrightarrow> fn = wrap ctor \<Longrightarrow>
     tree_map_items blind kws = tree_map_items blind kvs"
    by (induction fn v and fn xs and fn kvs arbitrary: v' and ys and kws
      rule: tree_map_tree_map_list_tree_map_items.induct)
    (auto simp: wrap_def blind_def isinstance_Tensor_def XLAShardedTensor_call_def
      split: sum.splits)

lemma dispatch_structure:
  assumes "tree_map_list unwrap args = Inr ua" and "tree_map_items unwrap kvs = Inr uk"
    and "func ua uk (DisableTorchDispatch s) = (Inr res, s2)"
    and "fst (torch_dispatch ctor func args (Some kvs) s) = Inr rs"
  shows "tree_map blind rs = tree_map blind res"
proof -
  from assms have "tree_map (wrap ctor) res = Inr rs"
    by (simp add: torch_dispatch_def no_dispatch_def split: sum.splits)
  then show ?thesis by (rule wrap_structure(1)) simp
qed

end
